theory Spec2Isabelle
  imports Main "HOL-Library.Word" "HOL-Library.Product_Lexorder"
begin

unbundle bit_operations_syntax

section \<open>Python values, dictionaries and exceptions\<close>

text \<open>
  A naive \<^verbatim>\<open>datetime.datetime\<close> (no time zone), as \<^verbatim>\<open>datetime.datetime.now()\<close>
  returns it. Python compares two naive datetimes as the tuples
  (year, month, day, hour, minute, second, microsecond).
\<close>

record datetime =
  year :: nat
  month :: nat
  day :: nat
  hour :: nat
  minute :: nat
  second :: nat
  microsecond :: nat

definition dt_tuple :: "datetime \<Rightarrow> nat \<times> nat \<times> nat \<times> nat \<times> nat \<times> nat \<times> nat" where
  "dt_tuple d = (year d, month d, day d, hour d, minute d, second d, microsecond d)"

definition dt_le :: "datetime \<Rightarrow> datetime \<Rightarrow> bool" where
  "dt_le a b = (dt_tuple a \<le> dt_tuple b)"

definition dt_less :: "datetime \<Rightarrow> datetime \<Rightarrow> bool" where
  "dt_less a b = (dt_tuple a < dt_tuple b)"

text \<open>
  The values an attribute can hold: the JSON-native values and datetimes. A Python
  \<^verbatim>\<open>dict\<close> with string keys is an association list in insertion order, its keys distinct.
\<close>

datatype pyval =
    PNone
  | PBool bool
  | PInt int
  | PStr string
  | PList "pyval list"
  | PDict "(string \<times> pyval) list"
  | PDatetime datetime

type_synonym pydict = "(string \<times> pyval) list"

datatype pyerr = TypeError | ValueError | AttributeError | KeyError

text \<open>\<^verbatim>\<open>d[k] = v\<close>: an existing key keeps its position, a new key goes last.\<close>

fun dict_setitem :: "('k \<times> 'v) list \<Rightarrow> 'k \<Rightarrow> 'v \<Rightarrow> ('k \<times> 'v) list" where
  "dict_setitem [] k v = [(k, v)]"
| "dict_setitem ((k', v') # d) k v =
     (if k' = k then (k, v) # d else (k', v') # dict_setitem d k v)"

text \<open>\<^verbatim>\<open>d[k]\<close> raises KeyError on a missing key.\<close>

definition dict_getitem :: "pydict \<Rightarrow> string \<Rightarrow> pyerr + pyval" where
  "dict_getitem d k = (case map_of d k of None \<Rightarrow> Inl KeyError | Some v \<Rightarrow> Inr v)"

text \<open>\<^verbatim>\<open>d.update(other)\<close> stores the entries of \<open>other\<close> one after the other.\<close>

fun dict_update :: "('k \<times> 'v) list \<Rightarrow> ('k \<times> 'v) list \<Rightarrow> ('k \<times> 'v) list" where
  "dict_update d [] = d"
| "dict_update d ((k, v) # other) = dict_update (dict_setitem d k v) other"

text \<open>\<^verbatim>\<open>d.copy()\<close> is a new dictionary with the same entries.\<close>

definition dict_copy :: "('k \<times> 'v) list \<Rightarrow> ('k \<times> 'v) list" where
  "dict_copy d = d"


section \<open>The library calls of the source\<close>

text \<open>
  \<^verbatim>\<open>datetime.isoformat()\<close> of a naive datetime, after CPython's
  \<^verbatim>\<open>"%04d-%02d-%02d%c" % (year, month, day, sep) + _format_time(hh, mm, ss, us)\<close>
  with the separator T; the microseconds are printed when they are not zero.
\<close>

definition digit_char :: "nat \<Rightarrow> char" where
  "digit_char n = ''0123456789abcdef'' ! n"

fun dec :: "nat \<Rightarrow> string" where
  "dec n = (if n < 10 then [digit_char n] else dec (n div 10) @ [digit_char (n mod 10)])"

declare dec.simps [simp del]

definition zero_pad :: "nat \<Rightarrow> string \<Rightarrow> string" where
  "zero_pad w s = replicate (w - length s) (CHR ''0'') @ s"

definition format_time :: "nat \<Rightarrow> nat \<Rightarrow> nat \<Rightarrow> nat \<Rightarrow> string" where
  "format_time hh mm ss us =
     zero_pad 2 (dec hh) @ '':'' @ zero_pad 2 (dec mm) @ '':'' @ zero_pad 2 (dec ss)
       @ (if us \<noteq> 0 then ''.'' @ zero_pad 6 (dec us) else [])"

definition isoformat :: "datetime \<Rightarrow> string" where
  "isoformat d =
     zero_pad 4 (dec (year d)) @ ''-'' @ zero_pad 2 (dec (month d)) @ ''-''
       @ zero_pad 2 (dec (day d)) @ ''T''
       @ format_time (hour d) (minute d) (second d) (microsecond d)"

text \<open>
  \<^verbatim>\<open>datetime.datetime.fromisoformat\<close> raises TypeError on an argument that is not a
  \<^verbatim>\<open>str\<close> and ValueError on a string it does not accept. Which strings it accepts
  depends on the Python version, so the parser of strings is a parameter of the model:
  \<open>parse s = None\<close> when the library rejects \<open>s\<close>.
\<close>

type_synonym iso_parser = "string \<Rightarrow> datetime option"

definition fromisoformat :: "iso_parser \<Rightarrow> pyval \<Rightarrow> pyerr + pyval" where
  "fromisoformat parse v =
     (case v of
        PStr s \<Rightarrow> (case parse s of None \<Rightarrow> Inl ValueError | Some d \<Rightarrow> Inr (PDatetime d))
      | _ \<Rightarrow> Inl TypeError)"

section \<open>models/base\_model.py\<close>

text \<open>
  An instance of BaseModel or of a subclass: the name of its class and its
  \<^verbatim>\<open>__dict__\<close>. The methods are functions of the instance.
\<close>

record base_model =
  class_name :: string
  attrs :: pydict

text \<open>
  \<^verbatim>\<open>setattr(self, key, value)\<close> on an instance of a plain class stores into
  \<^verbatim>\<open>__dict__\<close>, but for the names that the class answers with a data descriptor:
  \<^verbatim>\<open>__dict__\<close> replaces the whole dictionary and takes nothing but a dictionary,
  \<^verbatim>\<open>__weakref__\<close> is not writable, \<^verbatim>\<open>__class__\<close> takes nothing but a class.
\<close>

definition setattr :: "base_model \<Rightarrow> string \<Rightarrow> pyval \<Rightarrow> pyerr + base_model" where
  "setattr self key v =
     (if key = ''__dict__'' then
        (case v of PDict d \<Rightarrow> Inr (self\<lparr>attrs := d\<rparr>) | _ \<Rightarrow> Inl TypeError)
      else if key = ''__weakref__'' then Inl AttributeError
      else if key = ''__class__'' then Inl TypeError
      else Inr (self\<lparr>attrs := dict_setitem (attrs self) key v\<rparr>))"

text \<open>
  \<^verbatim>\<open>self.name\<close> for a name that no class defines: the entry of \<^verbatim>\<open>__dict__\<close>, or
  AttributeError.
\<close>

definition getattr :: "base_model \<Rightarrow> string \<Rightarrow> pyerr + pyval" where
  "getattr self name =
     (case map_of (attrs self) name of None \<Rightarrow> Inl AttributeError | Some v \<Rightarrow> Inr v)"

text \<open>
  The body of the loop of \<^verbatim>\<open>create\<close> for one entry \<^verbatim>\<open>key, value\<close> of
  \<^verbatim>\<open>dictionary.items()\<close>: the instance after it, or the exception raised.
\<close>

definition create_body :: "iso_parser \<Rightarrow> pydict \<Rightarrow> base_model \<Rightarrow> string \<times> pyval \<Rightarrow> pyerr + base_model" where
  "create_body parse dictionary self item =
     (case item of (key, v) \<Rightarrow>
        if key = ''__class__'' then Inr self
        else
          (case
             (if key = ''created_at'' then
                (case dict_getitem dictionary ''created_at'' of
                   Inl e \<Rightarrow> Inl e | Inr x \<Rightarrow> fromisoformat parse x)
              else if key = ''updated_at'' then
                (case dict_getitem dictionary ''updated_at'' of
                   Inl e \<Rightarrow> Inl e | Inr x \<Rightarrow> fromisoformat parse x)
              else Inr v)
           of
             Inl e \<Rightarrow> Inl e
           | Inr v' \<Rightarrow> setattr self key v'))"

text \<open>The loop itself; an exception ends it.\<close>

fun create_loop :: "iso_parser \<Rightarrow> pydict \<Rightarrow> base_model \<Rightarrow> pydict \<Rightarrow> pyerr + base_model" where
  "create_loop parse dictionary self [] = Inr self"
| "create_loop parse dictionary self (item # items) =
     (case create_body parse dictionary self item of
        Inl e \<Rightarrow> Inl e
      | Inr self' \<Rightarrow> create_loop parse dictionary self' items)"

definition create :: "iso_parser \<Rightarrow> base_model \<Rightarrow> pydict \<Rightarrow> pyerr + base_model" where
  "create parse self dictionary = create_loop parse dictionary self dictionary"

text \<open>
  \<^verbatim>\<open>uuid.uuid4()\<close> is \<^verbatim>\<open>UUID(bytes=os.urandom(16), version=4)\<close>: the sixteen random
  bytes read as a big-endian integer, then the variant and the version written into it.
  \<^verbatim>\<open>str\<close> of it prints \<^verbatim>\<open>'%032x' % int\<close> in five groups.
\<close>

definition UUID_init :: "int \<Rightarrow> int \<Rightarrow> int" where
  "UUID_init n version =
     (let n = n AND NOT (push_bit 48 0xc000);
          n = n OR push_bit 48 0x8000;
          n = n AND NOT (push_bit 64 0xf000);
          n = n OR push_bit 76 version
      in n)"

definition uuid4 :: "128 word \<Rightarrow> int" where
  "uuid4 urandom = UUID_init (uint urandom) 4"

fun hex :: "nat \<Rightarrow> string" where
  "hex n = (if n < 16 then [digit_char n] else hex (n div 16) @ [digit_char (n mod 16)])"

declare hex.simps [simp del]

definition UUID_str :: "int \<Rightarrow> string" where
  "UUID_str n =
     (let h = zero_pad 32 (hex (nat n))
      in take 8 h @ ''-'' @ take 4 (drop 8 h) @ ''-'' @ take 4 (drop 12 h) @ ''-''
           @ take 4 (drop 16 h) @ ''-'' @ drop 20 h)"

text \<open>
  An assignment \<^verbatim>\<open>self.name = value\<close> to one of the names \<^verbatim>\<open>id\<close>,
  \<^verbatim>\<open>created_at\<close>, \<^verbatim>\<open>updated_at\<close>: an entry of \<^verbatim>\<open>__dict__\<close>.
\<close>

definition assign :: "base_model \<Rightarrow> string \<Rightarrow> pyval \<Rightarrow> base_model" where
  "assign self name v = self\<lparr>attrs := dict_setitem (attrs self) name v\<rparr>"

text \<open>
  The constructor, called as \<^verbatim>\<open>cls(*args, **kwargs)\<close> on a new instance whose
  \<^verbatim>\<open>__dict__\<close> is empty. The storage engine (\<^verbatim>\<open>models.storage\<close>) is not part of this
  file: its state is \<open>st\<close> and its method \<^verbatim>\<open>new\<close> the parameter \<open>storage_new\<close>. The
  clock reading and the random bytes come from outside. Python binds the keywords to
  \<^verbatim>\<open>(self, *args, **kwargs)\<close> first: a keyword named \<^verbatim>\<open>self\<close> is a TypeError
  (multiple values for that argument). The result is what the call returns or raises,
  with the state of the storage engine after it.
\<close>

definition BaseModel_init ::
  "iso_parser \<Rightarrow> (base_model \<Rightarrow> 'st \<Rightarrow> 'st) \<Rightarrow> datetime \<Rightarrow> 128 word
     \<Rightarrow> string \<Rightarrow> pyval list \<Rightarrow> pydict \<Rightarrow> 'st \<Rightarrow> (pyerr + base_model) \<times> 'st" where
  "BaseModel_init parse storage_new now urandom cls args kwargs st =
     (if ''self'' \<in> set (map fst kwargs) then (Inl TypeError, st)
      else
        (let self = \<lparr>class_name = cls, attrs = []\<rparr> in
         if length kwargs \<noteq> 0 then
           (create parse self kwargs, st)
         else
           (let self = assign self ''id'' (PStr (UUID_str (uuid4 urandom)));
                self = assign self ''created_at'' (PDatetime now)
            in case getattr self ''created_at'' of
                 Inl e \<Rightarrow> (Inl e, st)
               | Inr c \<Rightarrow>
                   (let self = assign self ''updated_at'' c
                    in (Inr self, storage_new self st)))))"

text \<open>
  \<^verbatim>\<open>__str__\<close>; how Python prints a value (\<^verbatim>\<open>str\<close>, \<^verbatim>\<open>repr\<close>) is a parameter.
\<close>

definition BaseModel_str ::
  "(pyval \<Rightarrow> string) \<Rightarrow> (pyval \<Rightarrow> string) \<Rightarrow> base_model \<Rightarrow> pyerr + string" where
  "BaseModel_str py_str py_repr self =
     (case getattr self ''id'' of
        Inl e \<Rightarrow> Inl e
      | Inr i \<Rightarrow>
          Inr (''['' @ class_name self @ ''] ('' @ py_str i @ '') ''
                 @ py_repr (PDict (attrs self))))"

text \<open>
  \<^verbatim>\<open>save\<close>: the result, the instance after the call and the state of the storage engine
  after its \<^verbatim>\<open>save\<close> (the parameter \<open>storage_save\<close>).
\<close>

definition save ::
  "('st \<Rightarrow> (pyerr + unit) \<times> 'st) \<Rightarrow> datetime \<Rightarrow> base_model \<Rightarrow> 'st
     \<Rightarrow> (pyerr + unit) \<times> base_model \<times> 'st" where
  "save storage_save now self st =
     (let self = assign self ''updated_at'' (PDatetime now);
          (r, st) = storage_save st
      in (r, self, st))"

text \<open>\<^verbatim>\<open>value.isoformat()\<close>: only a datetime has the method.\<close>

definition call_isoformat :: "pyval \<Rightarrow> pyerr + pyval" where
  "call_isoformat v =
     (case v of PDatetime d \<Rightarrow> Inr (PStr (isoformat d)) | _ \<Rightarrow> Inl AttributeError)"

text \<open>
  \<^verbatim>\<open>to_dict\<close>: the result and the instance after the call. The three new entries are
  evaluated in the order of the source, then stored into the copy.
\<close>

definition to_dict :: "base_model \<Rightarrow> (pyerr + pydict) \<times> base_model" where
  "to_dict self =
     (let instance_to_dict = dict_copy (attrs self) in
      ((case getattr self ''created_at'' of
         Inl e \<Rightarrow> Inl e
       | Inr c \<Rightarrow>
           (case call_isoformat c of
              Inl e \<Rightarrow> Inl e
            | Inr cs \<Rightarrow>
                (case getattr self ''updated_at'' of
                   Inl e \<Rightarrow> Inl e
                 | Inr u \<Rightarrow>
                     (case call_isoformat u of
                        Inl e \<Rightarrow> Inl e
                      | Inr us \<Rightarrow>
                          Inr (dict_update instance_to_dict
                                 [(''__class__'', PStr (class_name self)),
                                  (''created_at'', cs),
                                  (''updated_at'', us)]))))),
       self))"

section \<open>Concrete collaborators\<close>

text \<open>
  A parser for the strings that \<open>isoformat\<close> prints,
  \<^verbatim>\<open>YYYY-MM-DDTHH:MM:SS\<close> and \<^verbatim>\<open>YYYY-MM-DDTHH:MM:SS.ffffff\<close>, which every version of
  \<^verbatim>\<open>fromisoformat\<close> reads the same way. It stands for the library where a statement is
  evaluated on concrete strings.
\<close>

definition digit_val :: "char \<Rightarrow> nat option" where
  "digit_val c = map_of (zip ''0123456789'' [0, 1, 2, 3, 4, 5, 6, 7, 8, 9]) c"

fun parse_nat :: "nat \<Rightarrow> string \<Rightarrow> nat option" where
  "parse_nat acc [] = Some acc"
| "parse_nat acc (c # cs) =
     (case digit_val c of None \<Rightarrow> None | Some x \<Rightarrow> parse_nat (10 * acc + x) cs)"

definition days_in_month :: "nat \<Rightarrow> nat \<Rightarrow> nat" where
  "days_in_month y m =
     (if m = 2 then (if y mod 4 = 0 \<and> (y mod 100 \<noteq> 0 \<or> y mod 400 = 0) then 29 else 28)
      else if m \<in> {4, 6, 9, 11} then 30 else 31)"

definition parse_iso :: iso_parser where
  "parse_iso s =
     (if (length s = 19 \<or> length s = 26 \<and> s ! 19 = CHR ''.'')
         \<and> s ! 4 = CHR ''-'' \<and> s ! 7 = CHR ''-'' \<and> s ! 10 = CHR ''T''
         \<and> s ! 13 = CHR '':'' \<and> s ! 16 = CHR '':'' then
        (case (parse_nat 0 (take 4 s), parse_nat 0 (take 2 (drop 5 s)),
               parse_nat 0 (take 2 (drop 8 s)), parse_nat 0 (take 2 (drop 11 s)),
               parse_nat 0 (take 2 (drop 14 s)), parse_nat 0 (take 2 (drop 17 s)),
               parse_nat 0 (drop 20 s)) of
           (Some y, Some mo, Some d, Some h, Some mi, Some sec, Some us) \<Rightarrow>
             (if 1 \<le> y \<and> 1 \<le> mo \<and> mo \<le> 12 \<and> 1 \<le> d \<and> d \<le> days_in_month y mo
                 \<and> h < 24 \<and> mi < 60 \<and> sec < 60 then
                Some \<lparr>year = y, month = mo, day = d, hour = h, minute = mi,
                      second = sec, microsecond = us\<rparr>
              else None)
         | _ \<Rightarrow> None)
      else None)"

text \<open>
  Modelled from the spec: the storage engine (models/engine/file\_storage.py) is not among
  the sources. Its registry maps the composite key \<^verbatim>\<open><ConcreteTypeName>.<id>\<close> to the
  entity, and New inserts or overwrites the entry of the entity's key.
\<close>

type_synonym registry = "(string \<times> base_model) list"

definition composite_key :: "base_model \<Rightarrow> string" where
  "composite_key obj =
     class_name obj @ ''.''
       @ (case map_of (attrs obj) ''id'' of Some (PStr i) \<Rightarrow> i | _ \<Rightarrow> [])"

definition FileStorage_new :: "base_model \<Rightarrow> registry \<Rightarrow> registry" where
  "FileStorage_new obj objects = dict_setitem objects (composite_key obj) obj"

text \<open>Clock readings for the concrete evaluations: 14 January 2024, 17:07:00, and later ones.\<close>

definition dt0 :: datetime where
  "dt0 = \<lparr>year = 2024, month = 1, day = 14, hour = 17, minute = 7, second = 0,
           microsecond = 0\<rparr>"

text \<open>An instance with an attribute of its own, as the tests of the repository build it.\<close>

definition user0 :: base_model where
  "user0 = \<lparr>class_name = ''User'',
            attrs = [(''id'', PStr ''1809''), (''created_at'', PDatetime dt0),
                     (''updated_at'', PDatetime dt0), (''email'', PStr ''abdo@gmail.com'')]\<rparr>"

text \<open>
  An entry that the loop of \<^verbatim>\<open>create\<close> stores as an attribute: its name is none of
  \<^verbatim>\<open>self\<close>, \<^verbatim>\<open>__dict__\<close>, \<^verbatim>\<open>__weakref__\<close>, and a timestamp is a string that the parser
  reads.
\<close>

definition plain_entry :: "iso_parser \<Rightarrow> string \<times> pyval \<Rightarrow> bool" where
  "plain_entry parse item =
     (case item of (k, v) \<Rightarrow>
        k \<noteq> ''self'' \<and> k \<noteq> ''__dict__'' \<and> k \<noteq> ''__weakref__''
        \<and> (k = ''created_at'' \<or> k = ''updated_at'' \<longrightarrow>
             (case v of PStr x \<Rightarrow> parse x \<noteq> None | _ \<Rightarrow> False)))"

text \<open>The comparison \<^verbatim>\<open>created_at <= updated_at\<close> on an instance that holds two datetimes.\<close>

definition created_le_updated :: "base_model \<Rightarrow> bool" where
  "created_le_updated self =
     (case (getattr self ''created_at'', getattr self ''updated_at'') of
        (Inr (PDatetime c), Inr (PDatetime u)) \<Rightarrow> dt_le c u
      | _ \<Rightarrow> False)"

text \<open>Two later readings: 15 January 2024, 00:00:00, and 1 January 2999, 00:00:00.\<close>

definition dt1 :: datetime where
  "dt1 = \<lparr>year = 2024, month = 1, day = 15, hour = 0, minute = 0, second = 0,
           microsecond = 0\<rparr>"

definition dt_late :: datetime where
  "dt_late = \<lparr>year = 2999, month = 1, day = 1, hour = 0, minute = 0, second = 0,
              microsecond = 0\<rparr>"

text \<open>A storage engine whose \<^verbatim>\<open>save\<close> returns and keeps the registry.\<close>

definition storage_save_ok :: "registry \<Rightarrow> (pyerr + unit) \<times> registry" where
  "storage_save_ok objects = (Inr (), objects)"

text \<open>
  The shape of a version 4 UUID in text: 8-4-4-4-12 lower-case hexadecimal digits, the
  first digit of the third group 4, the first digit of the fourth group 8, 9, a or b.
\<close>

definition is_hex :: "char \<Rightarrow> bool" where
  "is_hex c = (c \<in> set ''0123456789abcdef'')"

definition uuid4_shaped :: "string \<Rightarrow> bool" where
  "uuid4_shaped s =
     (length s = 36
      \<and> list_all is_hex (take 8 s) \<and> take 1 (drop 8 s) = ''-''
      \<and> list_all is_hex (take 4 (drop 9 s)) \<and> take 2 (drop 13 s) = ''-4''
      \<and> list_all is_hex (take 3 (drop 15 s)) \<and> take 1 (drop 18 s) = ''-''
      \<and> take 1 (drop 19 s) \<in> {''8'', ''9'', ''a'', ''b''}
      \<and> list_all is_hex (take 3 (drop 20 s)) \<and> take 1 (drop 23 s) = ''-''
      \<and> list_all is_hex (drop 24 s))"

text \<open>The last \<open>w\<close> hexadecimal digits of a number, for the proofs about \<open>hex\<close>.\<close>

fun hexpad :: "nat \<Rightarrow> nat \<Rightarrow> string" where
  "hexpad 0 n = []"
| "hexpad (Suc w) n = hexpad w (n div 16) @ [digit_char (n mod 16)]"

text \<open>
  The call \<^verbatim>\<open>obj.to_dict()\<close>. Python looks the name up on the instance, where an
  attribute named \<^verbatim>\<open>to_dict\<close> hides the method of the class; none of the values that an
  attribute holds here can be called, so the call is then a TypeError.
\<close>

definition call_to_dict :: "base_model \<Rightarrow> (pyerr + pydict) \<times> base_model" where
  "call_to_dict self =
     (if ''to_dict'' \<in> fst ` set (attrs self) then (Inl TypeError, self) else to_dict self)"


section \<open>Dictionaries and the loop of create\<close>

lemma map_of_dict_setitem: "map_of (dict_setitem d k v) = (map_of d)(k \<mapsto> v)"
  by (induction d) (auto simp: fun_eq_iff)

lemma keys_dict_setitem:
  "fst ` set (dict_setitem d k v) = insert k (fst ` set d)"
proof (induction d)
  case Nil
  show ?case by simp
next
  case (Cons a d)
  obtain k' v' where a: "a = (k', v')" by (cases a)
  show ?case
  proof (cases "k' = k")
    case True
    then show ?thesis using a by auto
  next
    case False
    then show ?thesis using a Cons.IH by (simp add: insert_commute)
  qed
qed

lemma distinct_dict_setitem:
  "distinct (map fst d) \<Longrightarrow> distinct (map fst (dict_setitem d k v))"
proof (induction d)
  case Nil
  show ?case by simp
next
  case (Cons a d)
  obtain k' v' where a: "a = (k', v')" by (cases a)
  show ?case
  proof (cases "k' = k")
    case True
    then show ?thesis using a Cons.prems by simp
  next
    case False
    then show ?thesis using a Cons by (simp add: keys_dict_setitem)
  qed
qed

lemma create_loop_append:
  "create_loop parse dictionary self (xs @ ys) =
     (case create_loop parse dictionary self xs of
        Inl e \<Rightarrow> Inl e
      | Inr self' \<Rightarrow> create_loop parse dictionary self' ys)"
  by (induction xs arbitrary: self) (simp_all split: sum.splits)

lemma create_body_class: "create_body parse D s (''__class__'', v) = Inr s"
  by (simp add: create_body_def)

lemma create_body_created:
  "create_body parse D s (''created_at'', v) =
     (case dict_getitem D ''created_at'' of
        Inl e \<Rightarrow> Inl e
      | Inr x \<Rightarrow> (case fromisoformat parse x of
                    Inl e \<Rightarrow> Inl e | Inr d \<Rightarrow> setattr s ''created_at'' d))"
  by (simp add: create_body_def split: sum.splits)

lemma create_body_updated:
  "create_body parse D s (''updated_at'', v) =
     (case dict_getitem D ''updated_at'' of
        Inl e \<Rightarrow> Inl e
      | Inr x \<Rightarrow> (case fromisoformat parse x of
                    Inl e \<Rightarrow> Inl e | Inr d \<Rightarrow> setattr s ''updated_at'' d))"
  by (simp add: create_body_def split: sum.splits)

lemma create_body_other:
  "k \<noteq> ''__class__'' \<Longrightarrow> k \<noteq> ''created_at'' \<Longrightarrow> k \<noteq> ''updated_at'' \<Longrightarrow>
   create_body parse D s (k, v) = setattr s k v"
  by (simp add: create_body_def)

lemma fromisoformat_Inr:
  "fromisoformat parse y = Inr x \<Longrightarrow> \<exists>z d. y = PStr z \<and> parse z = Some d \<and> x = PDatetime d"
  by (cases y) (simp_all add: fromisoformat_def split: option.splits)

lemma dict_getitem_Inr: "dict_getitem D k = Inr y \<Longrightarrow> map_of D k = Some y"
  by (simp add: dict_getitem_def split: option.splits)

lemma setattr_plain:
  "k \<noteq> ''__dict__'' \<Longrightarrow> setattr s k w = Inr s' \<Longrightarrow>
   k \<noteq> ''__weakref__'' \<and> k \<noteq> ''__class__'' \<and> s' = s\<lparr>attrs := dict_setitem (attrs s) k w\<rparr>"
  by (simp add: setattr_def split: if_splits)


lemma create_body_timestamp_success:
  assumes "create_body parse D s (k, v) = Inr s'"
    and "k = ''created_at'' \<or> k = ''updated_at''"
  shows "\<exists>x d. map_of D k = Some (PStr x) \<and> parse x = Some d
           \<and> s' = s\<lparr>attrs := dict_setitem (attrs s) k (PDatetime d)\<rparr>"
proof -
  have eq: "create_body parse D s (k, v) =
     (case dict_getitem D k of
        Inl e \<Rightarrow> Inl e
      | Inr x \<Rightarrow> (case fromisoformat parse x of Inl e \<Rightarrow> Inl e | Inr d \<Rightarrow> setattr s k d))"
    using assms(2) create_body_created create_body_updated by blast
  obtain y where y: "dict_getitem D k = Inr y"
    using assms(1) unfolding eq by (cases "dict_getitem D k") simp_all
  obtain x where x: "fromisoformat parse y = Inr x"
    using assms(1) unfolding eq y by (cases "fromisoformat parse y") simp_all
  have s': "setattr s k x = Inr s'"
    using assms(1) by (simp add: eq y x)
  have k: "k \<noteq> ''__dict__''"
    using assms(2) by auto
  from fromisoformat_Inr [OF x] obtain z d
    where "y = PStr z" "parse z = Some d" "x = PDatetime d" by blast
  with dict_getitem_Inr [OF y] setattr_plain [OF k s'] show ?thesis
    by blast
qed

lemma create_body_other_success:
  assumes "create_body parse D s (k, v) = Inr s'"
    and "k \<noteq> ''__class__''" "k \<noteq> ''created_at''" "k \<noteq> ''updated_at''" "k \<noteq> ''__dict__''"
  shows "s' = s\<lparr>attrs := dict_setitem (attrs s) k v\<rparr>"
  using assms setattr_plain [of k s v s'] by (simp add: create_body_other)

lemma create_body_timestamp:
  assumes "k = ''created_at'' \<or> k = ''updated_at''" and "map_of dictionary k = Some x"
  shows "create_body parse dictionary self (k, v) =
           (case fromisoformat parse x of Inl e \<Rightarrow> Inl e | Inr d \<Rightarrow> setattr self k d)"
  using assms by (auto simp: create_body_def dict_getitem_def)

lemma dict_entry_lookup:
  "distinct (map fst (pre @ (k, x) # post)) \<Longrightarrow> map_of (pre @ (k, x) # post) k = Some x"
  by (rule map_of_is_SomeI) simp_all

lemma create_raises_at:
  assumes "\<And>s. create_body parse (pre @ item # post) s item = Inl e"
  shows "(\<exists>e'. create parse self (pre @ item # post) = Inl e')
         \<and> (\<forall>s. create_loop parse (pre @ item # post) self pre = Inr s
                \<longrightarrow> create parse self (pre @ item # post) = Inl e)"
  using assms by (cases "create_loop parse (pre @ item # post) self pre")
    (simp_all add: create_def create_loop_append)

lemma fromisoformat_not_str: "(\<forall>s. v \<noteq> PStr s) \<Longrightarrow> fromisoformat parse v = Inl TypeError"
  by (cases v) (simp_all add: fromisoformat_def)

lemma fromisoformat_invalid: "parse s = None \<Longrightarrow> fromisoformat parse (PStr s) = Inl ValueError"
  by (simp add: fromisoformat_def)

lemma create_body_shape:
  assumes "create_body parse D s (k, v) = Inr s'" and "k \<noteq> ''__dict__''"
  shows "(k = ''__class__'' \<and> s' = s)
       \<or> (k \<noteq> ''__class__'' \<and> (\<exists>w. s' = s\<lparr>attrs := dict_setitem (attrs s) k w\<rparr>))"
proof (cases "k = ''__class__''")
  case True
  then show ?thesis using assms(1) by (simp add: create_body_class)
next
  case False
  show ?thesis
  proof (cases "k = ''created_at'' \<or> k = ''updated_at''")
    case True
    from create_body_timestamp_success [OF assms(1) True] False show ?thesis by blast
  next
    case other: False
    then have "s' = s\<lparr>attrs := dict_setitem (attrs s) k v\<rparr>"
      using create_body_other_success [OF assms(1)] False assms(2) by blast
    then show ?thesis using False by blast
  qed
qed

lemma create_loop_frame:
  assumes "create_loop parse D s items = Inr s'" and "''__dict__'' \<notin> fst ` set items"
  shows "class_name s' = class_name s
    \<and> (\<forall>k. k \<notin> fst ` set items \<or> k = ''__class__'' \<longrightarrow>
           map_of (attrs s') k = map_of (attrs s) k)
    \<and> (distinct (map fst (attrs s)) \<longrightarrow> distinct (map fst (attrs s')))"
  using assms
proof (induction items arbitrary: s)
  case Nil
  then show ?case by simp
next
  case (Cons a items)
  obtain k0 v0 where a: "a = (k0, v0)" by (cases a)
  obtain s1 where s1: "create_body parse D s (k0, v0) = Inr s1"
    and rest: "create_loop parse D s1 items = Inr s'"
    using Cons.prems(1) unfolding a by (cases "create_body parse D s (k0, v0)") simp_all
  have k0: "k0 \<noteq> ''__dict__''" and items: "''__dict__'' \<notin> fst ` set items"
    using Cons.prems(2) unfolding a by auto
  note IH = Cons.IH [OF rest items]
  from create_body_shape [OF s1 k0] show ?case
  proof
    assume "k0 = ''__class__'' \<and> s1 = s"
    then show ?thesis using IH unfolding a by auto
  next
    assume "k0 \<noteq> ''__class__'' \<and> (\<exists>w. s1 = s\<lparr>attrs := dict_setitem (attrs s) k0 w\<rparr>)"
    then obtain w where w: "s1 = s\<lparr>attrs := dict_setitem (attrs s) k0 w\<rparr>" by blast
    have 1: "class_name s' = class_name s" using IH w by simp
    have 2: "map_of (attrs s') k = map_of (attrs s) k"
      if "k \<notin> fst ` set (a # items) \<or> k = ''__class__''" for k
    proof -
      have "k \<noteq> k0" using that \<open>k0 \<noteq> ''__class__'' \<and> _\<close> unfolding a by auto
      moreover have "map_of (attrs s') k = map_of (attrs s1) k"
        using that IH unfolding a by auto
      ultimately show ?thesis by (simp add: w map_of_dict_setitem)
    qed
    have 3: "distinct (map fst (attrs s')) " if "distinct (map fst (attrs s))"
      using IH that by (simp add: w distinct_dict_setitem)
    show ?thesis using 1 2 3 by blast
  qed
qed

lemma create_loop_stored:
  assumes "create_loop parse D s items = Inr s'" and "''__dict__'' \<notin> fst ` set items"
    and "distinct (map fst items)" and "(k, v) \<in> set items" and "k \<noteq> ''__class__''"
  shows "(k = ''created_at'' \<or> k = ''updated_at'' \<longrightarrow>
           (\<exists>x d. map_of D k = Some (PStr x) \<and> parse x = Some d
                \<and> map_of (attrs s') k = Some (PDatetime d)))
       \<and> (k \<noteq> ''created_at'' \<and> k \<noteq> ''updated_at'' \<longrightarrow> map_of (attrs s') k = Some v)"
  using assms(1-4)
proof (induction items arbitrary: s)
  case Nil
  then show ?case by simp
next
  case (Cons a items)
  obtain k0 v0 where a: "a = (k0, v0)" by (cases a)
  obtain s1 where s1: "create_body parse D s (k0, v0) = Inr s1"
    and rest: "create_loop parse D s1 items = Inr s'"
    using Cons.prems(1) unfolding a by (cases "create_body parse D s (k0, v0)") simp_all
  have k0: "k0 \<noteq> ''__dict__''" and items: "''__dict__'' \<notin> fst ` set items"
    using Cons.prems(2) unfolding a by auto
  have fresh: "k0 \<notin> fst ` set items" and dist: "distinct (map fst items)"
    using Cons.prems(3) unfolding a by auto
  show ?case
  proof (cases "(k, v) = (k0, v0)")
    case True
    then have kv: "k = k0" "v = v0" by simp_all
    have keep: "map_of (attrs s') k = map_of (attrs s1) k"
      using create_loop_frame [OF rest items] fresh kv by blast
    show ?thesis
    proof (cases "k = ''created_at'' \<or> k = ''updated_at''")
      case True
      from create_body_timestamp_success [OF s1 True [unfolded kv]]
      obtain x d where "map_of D k0 = Some (PStr x)" "parse x = Some d"
        "s1 = s\<lparr>attrs := dict_setitem (attrs s) k0 (PDatetime d)\<rparr>" by blast
      then show ?thesis using True keep kv by (auto simp: map_of_dict_setitem)
    next
      case False
      then have "s1 = s\<lparr>attrs := dict_setitem (attrs s) k0 v0\<rparr>"
        using create_body_other_success [OF s1] assms(5) k0 kv by blast
      then show ?thesis using False keep kv by (auto simp: map_of_dict_setitem)
    qed
  next
    case False
    then have "(k, v) \<in> set items" using Cons.prems(4) unfolding a by auto
    from Cons.IH [OF rest items dist this] show ?thesis .
  qed
qed

lemma setattr_timestamp:
  "k = ''created_at'' \<or> k = ''updated_at'' \<Longrightarrow>
   setattr s k w = Inr (s\<lparr>attrs := dict_setitem (attrs s) k w\<rparr>)"
  by (auto simp: setattr_def)

lemma plain_timestamp:
  "plain_entry parse (k, v) \<Longrightarrow> k = ''created_at'' \<or> k = ''updated_at'' \<Longrightarrow>
   \<exists>x d. v = PStr x \<and> parse x = Some d"
  by (cases v) (auto simp: plain_entry_def)

lemma plain_other:
  "plain_entry parse (k, v) \<Longrightarrow> k \<noteq> ''__class__'' \<Longrightarrow>
   setattr s k w = Inr (s\<lparr>attrs := dict_setitem (attrs s) k w\<rparr>)"
  by (simp add: setattr_def plain_entry_def)

lemma create_body_plain:
  assumes "plain_entry parse (k, v)" and "map_of D k = Some v"
  shows "\<exists>s'. create_body parse D s (k, v) = Inr s'"
proof (cases "k = ''__class__''")
  case True
  then show ?thesis by (simp add: create_body_class)
next
  case False
  show ?thesis
  proof (cases "k = ''created_at'' \<or> k = ''updated_at''")
    case True
    from plain_timestamp [OF assms(1) True] obtain x d
      where v: "v = PStr x" and d: "parse x = Some d" by blast
    have "fromisoformat parse v = Inr (PDatetime d)"
      by (simp add: fromisoformat_def v d)
    then have "create_body parse D s (k, v) = setattr s k (PDatetime d)"
      by (simp add: create_body_timestamp [OF True assms(2)])
    then show ?thesis
      by (simp add: setattr_timestamp [OF True])
  next
    case other: False
    then have "create_body parse D s (k, v) = setattr s k v"
      using False by (simp add: create_body_other)
    then show ?thesis
      by (simp add: plain_other [OF assms(1) False])
  qed
qed

lemma create_loop_plain:
  assumes "\<forall>item \<in> set items. plain_entry parse item \<and> map_of D (fst item) = Some (snd item)"
  shows "\<exists>s'. create_loop parse D s items = Inr s'"
  using assms
proof (induction items arbitrary: s)
  case Nil
  show ?case by simp
next
  case (Cons a items)
  obtain k v where a: "a = (k, v)" by (cases a)
  have "plain_entry parse (k, v)" and "map_of D k = Some v"
    using Cons.prems unfolding a by simp_all
  from create_body_plain [OF this]
  obtain s1 where s1: "create_body parse D s (k, v) = Inr s1" by blast
  have "\<forall>item \<in> set items. plain_entry parse item \<and> map_of D (fst item) = Some (snd item)"
    using Cons.prems by simp
  from Cons.IH [OF this] obtain s' where "create_loop parse D s1 items = Inr s'"
    by blast
  then show ?case unfolding a by (simp add: s1)
qed

lemma create_plain:
  assumes "distinct (map fst dictionary)" and "\<forall>item \<in> set dictionary. plain_entry parse item"
  shows "\<exists>s'. create parse s dictionary = Inr s'"
  unfolding create_def
proof (rule create_loop_plain, rule ballI)
  fix item assume item: "item \<in> set dictionary"
  obtain k v where kv: "item = (k, v)" by (cases item)
  have "map_of dictionary k = Some v"
    using assms(1) item unfolding kv by (rule map_of_is_SomeI)
  then show "plain_entry parse item \<and> map_of dictionary (fst item) = Some (snd item)"
    using assms(2) item kv by simp
qed

lemma init_single_plain:
  assumes "k \<noteq> ''self''" "k \<noteq> ''__dict__''" "k \<noteq> ''__weakref__''" "k \<noteq> ''__class__''"
    "k \<noteq> ''created_at''" "k \<noteq> ''updated_at''"
  shows "BaseModel_init parse storage_new now urandom cls args [(k, v)] st
           = (Inr \<lparr>class_name = cls, attrs = [(k, v)]\<rparr>, st)"
  using assms by (simp add: BaseModel_init_def create_def create_body_other setattr_def)

lemma parse_iso_short: "length s < 19 \<Longrightarrow> parse_iso s = None"
  by (simp add: parse_iso_def)

lemma parse_iso_dt0: "parse_iso ''2024-01-14T17:07:00'' = Some dt0"
  unfolding dt0_def by code_simp

lemma init_mapping0:
  "BaseModel_init parse_iso FileStorage_new dt0 0 ''User'' []
     [(''id'', PStr ''1809''), (''created_at'', PStr ''2024-01-14T17:07:00''),
      (''updated_at'', PStr ''2024-01-14T17:07:00''), (''__class__'', PStr ''User''),
      (''email'', PStr ''abdo@gmail.com'')] []
   = (Inr \<lparr>class_name = ''User'',
           attrs = [(''id'', PStr ''1809''), (''created_at'', PDatetime dt0),
                    (''updated_at'', PDatetime dt0), (''email'', PStr ''abdo@gmail.com'')]\<rparr>, [])"
  by (simp add: BaseModel_init_def create_def create_body_def dict_getitem_def
      fromisoformat_def parse_iso_dt0 setattr_def)

lemma getattr_assign:
  "getattr (assign self k v) k' = (if k' = k then Inr v else getattr self k')"
  by (simp add: getattr_def assign_def map_of_dict_setitem)

lemma save_result:
  "save storage_save now self st =
     (fst (storage_save st), assign self ''updated_at'' (PDatetime now), snd (storage_save st))"
  by (simp add: save_def Let_def split: prod.splits)

lemma parse_iso_dt_late: "parse_iso ''2999-01-01T00:00:00'' = Some dt_late"
  unfolding dt_late_def by code_simp

lemma parse_iso_dt1: "parse_iso ''2024-01-15T00:00:00'' = Some dt1"
  unfolding dt1_def by code_simp

lemma dt0_less_dt1: "dt_less dt0 dt1 \<and> dt_le dt0 dt1 \<and> \<not> dt_le dt1 dt0"
  by (simp add: dt_less_def dt_le_def dt_tuple_def dt0_def dt1_def)

lemma dt0_less_dt_late: "dt_less dt0 dt_late \<and> \<not> dt_le dt_late dt0"
  by (simp add: dt_less_def dt_le_def dt_tuple_def dt0_def dt_late_def)

lemma init_fresh:
  "BaseModel_init parse storage_new now urandom cls args [] st =
     (Inr \<lparr>class_name = cls,
           attrs = [(''id'', PStr (UUID_str (uuid4 urandom))),
                    (''created_at'', PDatetime now), (''updated_at'', PDatetime now)]\<rparr>,
      storage_new \<lparr>class_name = cls,
           attrs = [(''id'', PStr (UUID_str (uuid4 urandom))),
                    (''created_at'', PDatetime now), (''updated_at'', PDatetime now)]\<rparr> st)"
  by (simp add: BaseModel_init_def assign_def getattr_def Let_def)

lemma init_kwargs:
  "kwargs \<noteq> [] \<Longrightarrow> fst (BaseModel_init parse storage_new now urandom cls args kwargs st) = Inr self
   \<Longrightarrow> ''self'' \<notin> fst ` set kwargs
       \<and> create_loop parse kwargs \<lparr>class_name = cls, attrs = []\<rparr> kwargs = Inr self"
  by (simp add: BaseModel_init_def Let_def create_def split: if_splits)

lemma dt_le_refl: "dt_le d d"
  by (simp add: dt_le_def)

lemma init_mapping0_fst:
  "fst (BaseModel_init parse_iso FileStorage_new dt0 0 ''User'' []
     [(''id'', PStr ''1809''), (''created_at'', PStr ''2024-01-14T17:07:00''),
      (''updated_at'', PStr ''2024-01-14T17:07:00''), (''__class__'', PStr ''User''),
      (''email'', PStr ''abdo@gmail.com'')] []) = Inr user0"
  by (simp add: init_mapping0 user0_def)

lemma to_dict_total_iff:
  "(\<exists>m. fst (to_dict self) = Inr m) \<longleftrightarrow>
   (\<exists>c u. getattr self ''created_at'' = Inr (PDatetime c)
        \<and> getattr self ''updated_at'' = Inr (PDatetime u))"
  by (auto simp: to_dict_def Let_def call_isoformat_def split: sum.splits pyval.splits)

lemma getattr_Inl: "getattr self k = Inl e \<Longrightarrow> e = AttributeError"
  by (simp add: getattr_def split: option.splits)

lemma to_dict_missing:
  "getattr self ''created_at'' = Inl AttributeError \<or> getattr self ''updated_at'' = Inl AttributeError
   \<Longrightarrow> fst (to_dict self) = Inl AttributeError"
  by (auto simp: to_dict_def Let_def call_isoformat_def dest: getattr_Inl
      split: sum.splits pyval.splits)

lemma uuid4_bits:
  "\<not> bit (uuid4 w) 76 \<and> \<not> bit (uuid4 w) 77 \<and> bit (uuid4 w) 78 \<and> \<not> bit (uuid4 w) 79
   \<and> \<not> bit (uuid4 w) 62 \<and> bit (uuid4 w) 63"
  by (simp add: uuid4_def UUID_init_def Let_def bit_simps)

lemma bit_four: "bit (4::int) i \<longleftrightarrow> i = 2"
proof -
  have "(4::int) = 2 ^ 2" by simp
  then show ?thesis by (simp only: bit_exp_iff) simp
qed

lemma bit_two: "bit (2::int) i \<longleftrightarrow> i = 1"
  by (simp add: bit_2_iff)

lemma version_nibble: "take_bit 4 (drop_bit 76 (uuid4 w)) = 4"
proof (rule bit_eqI)
  fix i :: nat
  have c: "i < 4 \<Longrightarrow> i = 0 \<or> i = 1 \<or> i = 2 \<or> i = 3" by arith
  show "bit (take_bit 4 (drop_bit 76 (uuid4 w))) i \<longleftrightarrow> bit (4::int) i"
    using uuid4_bits [of w] c by (auto simp: bit_take_bit_iff bit_drop_bit_eq bit_four)
qed

lemma variant_bits: "take_bit 2 (drop_bit 62 (uuid4 w)) = 2"
proof (rule bit_eqI)
  fix i :: nat
  have c: "i < 2 \<Longrightarrow> i = 0 \<or> i = 1" by arith
  show "bit (take_bit 2 (drop_bit 62 (uuid4 w))) i \<longleftrightarrow> bit (2::int) i"
    using uuid4_bits [of w] c by (auto simp: bit_take_bit_iff bit_drop_bit_eq bit_two)
qed

lemma uuid4_range: "0 \<le> uuid4 w \<and> uuid4 w < 2 ^ 128"
proof -
  define a where "a = uint w AND NOT (push_bit 48 0xc000)"
  define b where "b = a OR push_bit 48 0x8000"
  define c where "c = b AND NOT (push_bit 64 0xf000)"
  define d where "d = c OR push_bit 76 4"
  have u: "uuid4 w = d"
    by (simp add: uuid4_def UUID_init_def Let_def a_def b_def c_def d_def)
  have r0: "0 \<le> uint w" by simp
  have r1: "uint w < 2 ^ 128" using uint_lt2p [of w] by simp
  have a0: "0 \<le> a" unfolding a_def using r0 by (rule AND_lower)
  have a1: "a < 2 ^ 128" unfolding a_def using r0 r1 by (rule AND_upper1'')
  have k1: "(push_bit 48 0x8000 :: int) < 2 ^ 128" by simp
  have k10: "0 \<le> (push_bit 48 0x8000 :: int)" by simp
  have b0: "0 \<le> b" unfolding b_def using a0 k10 by (rule OR_lower)
  have b1: "b < 2 ^ 128" unfolding b_def using a0 a1 k1 by (rule OR_upper)
  have c0: "0 \<le> c" unfolding c_def using b0 by (rule AND_lower)
  have c1: "c < 2 ^ 128" unfolding c_def using b0 b1 by (rule AND_upper1'')
  have k2: "(push_bit 76 4 :: int) < 2 ^ 128" by simp
  have k20: "0 \<le> (push_bit 76 4 :: int)" by simp
  have d0: "0 \<le> d" unfolding d_def using c0 k20 by (rule OR_lower)
  have d1: "d < 2 ^ 128" unfolding d_def using c0 c1 k2 by (rule OR_upper)
  show ?thesis using d0 d1 u by simp
qed


lemma uuid4_nibbles:
  "nat (uuid4 w) < 16 ^ 32
   \<and> nat (uuid4 w) div 16 ^ 19 mod 16 = 4
   \<and> nat (uuid4 w) div 16 ^ 15 mod 16 \<in> {8, 9, 10, 11}"
proof -
  define N where "N = uuid4 w"
  have pos: "0 \<le> N" and up: "N < 2 ^ 128"
    using uuid4_range [of w] by (simp_all add: N_def)
  have v: "N div 2 ^ 76 mod 2 ^ 4 = 4"
    using version_nibble [of w] by (simp only: take_bit_eq_mod drop_bit_eq_div N_def)
  have t: "N div 2 ^ 62 mod 2 ^ 2 = 2"
    using variant_bits [of w] by (simp only: take_bit_eq_mod drop_bit_eq_div N_def)
  define z where "z = N div 2 ^ 60"
  have "z div 4 = N div 2 ^ 62"
    unfolding z_def by (simp add: zdiv_zmult2_eq [symmetric])
  with t have t': "z div 4 mod 4 = 2" by simp
  have "z mod (4 * 4) = 4 * (z div 4 mod 4) + z mod 4"
    by (rule zmod_zmult2_eq) simp
  then have e: "z mod 16 = 8 + z mod 4"
    by (simp add: t')
  define m where "m = z mod 4"
  have "0 \<le> m" "m < 4" by (simp_all add: m_def)
  then have "m = 0 \<or> m = 1 \<or> m = 2 \<or> m = 3" by arith
  then have "z mod 16 = 8 \<or> z mod 16 = 9 \<or> z mod 16 = 10 \<or> z mod 16 = 11"
    unfolding e m_def [symmetric] by auto
  then have z: "z mod 16 \<in> {8, 9, 10, 11}" by simp
  have 1: "nat N < 16 ^ 32"
    using pos up by (simp add: nat_less_iff)
  have 2: "nat N div 16 ^ 19 mod 16 = nat (N div 2 ^ 76 mod 2 ^ 4)"
    using pos by (simp add: nat_div_distrib nat_mod_distrib)
  have 3: "nat N div 16 ^ 15 mod 16 = nat (z mod 16)"
    using pos by (simp add: nat_div_distrib nat_mod_distrib z_def)
  have 4: "nat (z mod 16) \<in> {8, 9, 10, 11}"
    using z by auto
  show ?thesis
    using 1 2 3 4 v by (simp add: N_def)
qed

lemma digit_char_hex: "n < 16 \<Longrightarrow> is_hex (digit_char n)"
proof -
  assume "n < 16"
  then have "n = 0 \<or> n = 1 \<or> n = 2 \<or> n = 3 \<or> n = 4 \<or> n = 5 \<or> n = 6 \<or> n = 7 \<or> n = 8
      \<or> n = 9 \<or> n = 10 \<or> n = 11 \<or> n = 12 \<or> n = 13 \<or> n = 14 \<or> n = 15"
    by arith
  then show ?thesis
    by (elim disjE) (simp_all add: is_hex_def digit_char_def)
qed

lemma digit_char_0: "digit_char 0 = CHR ''0''"
  by (simp add: digit_char_def)

lemma hexpad_zero: "hexpad w 0 = replicate w (CHR ''0'')"
  by (induction w) (simp_all add: digit_char_0 replicate_append_same)

lemma length_hexpad: "length (hexpad w n) = w"
  by (induction w arbitrary: n) simp_all

lemma hexpad_is_hex: "list_all is_hex (hexpad w n)"
  by (induction w arbitrary: n) (simp_all add: digit_char_hex)

lemma zero_pad_snoc: "zero_pad (Suc w) (xs @ [d]) = zero_pad w xs @ [d]"
  by (simp add: zero_pad_def)

lemma zero_pad_hex: "0 < w \<Longrightarrow> n < 16 ^ w \<Longrightarrow> zero_pad w (hex n) = hexpad w n"
proof (induction w arbitrary: n)
  case 0
  then show ?case by simp
next
  case (Suc w)
  show ?case
  proof (cases "n < 16")
    case True
    then have "hex n = [digit_char n]" by (simp add: hex.simps)
    then show ?thesis using True
      by (simp add: zero_pad_def hexpad_zero)
  next
    case False
    then have h: "hex n = hex (n div 16) @ [digit_char (n mod 16)]"
      by (simp add: hex.simps)
    have w: "0 < w"
      using False Suc.prems(2) by (cases w) simp_all
    have "n div 16 < 16 ^ w"
      using Suc.prems(2) by (simp add: less_mult_imp_div_less mult.commute)
    from Suc.IH [OF w this] show ?thesis
      by (simp add: h zero_pad_snoc)
  qed
qed

lemma hexpad_add: "hexpad (a + b) n = hexpad a (n div 16 ^ b) @ hexpad b n"
proof (induction b arbitrary: n)
  case 0
  show ?case by simp
next
  case (Suc b)
  have "n div 16 div 16 ^ b = n div 16 ^ Suc b"
    by (simp add: div_mult2_eq)
  with Suc [of "n div 16"] show ?case by simp
qed

lemma hexpad_32:
  "hexpad 32 n = hexpad 8 (n div 16 ^ 24) @ hexpad 4 (n div 16 ^ 20) @ hexpad 4 (n div 16 ^ 16)
     @ hexpad 4 (n div 16 ^ 12) @ hexpad 12 n"
proof -
  have d: "n div 16 ^ a div 16 ^ b = n div 16 ^ (a + b)" for a b :: nat
    by (simp add: div_mult2_eq power_add)
  have 1: "hexpad 32 n = hexpad 20 (n div 16 ^ 12) @ hexpad 12 n"
    using hexpad_add [of 20 12 n] by simp
  have 2: "hexpad 20 (n div 16 ^ 12) = hexpad 16 (n div 16 ^ 16) @ hexpad 4 (n div 16 ^ 12)"
    using hexpad_add [of 16 4 "n div 16 ^ 12"] d [of 12 4] by simp
  have 3: "hexpad 16 (n div 16 ^ 16) = hexpad 12 (n div 16 ^ 20) @ hexpad 4 (n div 16 ^ 16)"
    using hexpad_add [of 12 4 "n div 16 ^ 16"] d [of 16 4] by simp
  have 4: "hexpad 12 (n div 16 ^ 20) = hexpad 8 (n div 16 ^ 24) @ hexpad 4 (n div 16 ^ 20)"
    using hexpad_add [of 8 4 "n div 16 ^ 20"] d [of 20 4] by simp
  show ?thesis
    unfolding 1 2 3 4 by simp
qed

lemma hexpad_4_head:
  "hexpad 4 m = digit_char (m div 16 ^ 3 mod 16) # hexpad 3 m"
proof -
  have "hexpad (1 + 3) m = hexpad 1 (m div 16 ^ 3) @ hexpad 3 m"
    by (rule hexpad_add)
  then show ?thesis by simp
qed

lemma UUID_str_groups:
  assumes "n < 16 ^ 32"
  shows "UUID_str (int n) =
     hexpad 8 (n div 16 ^ 24) @ ''-'' @ hexpad 4 (n div 16 ^ 20) @ ''-''
       @ (digit_char (n div 16 ^ 19 mod 16) # hexpad 3 (n div 16 ^ 16)) @ ''-''
       @ (digit_char (n div 16 ^ 15 mod 16) # hexpad 3 (n div 16 ^ 12)) @ ''-''
       @ hexpad 12 n"
proof -
  have d: "n div 16 ^ a div 16 ^ b = n div 16 ^ (a + b)" for a b :: nat
    by (simp add: div_mult2_eq power_add)
  have h: "zero_pad 32 (hex n) = hexpad 32 n"
    using assms by (simp add: zero_pad_hex)
  have c: "hexpad 4 (n div 16 ^ 16) = digit_char (n div 16 ^ 19 mod 16) # hexpad 3 (n div 16 ^ 16)"
    using hexpad_4_head [of "n div 16 ^ 16"] d [of 16 3] by simp
  have e: "hexpad 4 (n div 16 ^ 12) = digit_char (n div 16 ^ 15 mod 16) # hexpad 3 (n div 16 ^ 12)"
    using hexpad_4_head [of "n div 16 ^ 12"] d [of 12 3] by simp
  have "UUID_str (int n) =
     hexpad 8 (n div 16 ^ 24) @ ''-'' @ hexpad 4 (n div 16 ^ 20) @ ''-''
       @ hexpad 4 (n div 16 ^ 16) @ ''-'' @ hexpad 4 (n div 16 ^ 12) @ ''-'' @ hexpad 12 n"
    unfolding UUID_str_def Let_def nat_int h hexpad_32
    by (simp add: length_hexpad)
  then show ?thesis
    unfolding c e .
qed

lemma uuid4_str_shaped: "uuid4_shaped (UUID_str (uuid4 w))"
proof -
  define n where "n = nat (uuid4 w)"
  have n: "int n = uuid4 w"
    using uuid4_range [of w] by (simp add: n_def)
  have r: "n < 16 ^ 32" and v: "n div 16 ^ 19 mod 16 = 4"
    and t: "n div 16 ^ 15 mod 16 \<in> {8, 9, 10, 11}"
    using uuid4_nibbles [of w] by (simp_all add: n_def)
  have dv: "digit_char (n div 16 ^ 19 mod 16) = CHR ''4''"
    unfolding v by (simp add: digit_char_def)
  have dt: "[digit_char (n div 16 ^ 15 mod 16)] \<in> {''8'', ''9'', ''a'', ''b''}"
    using t by (auto simp: digit_char_def)
  note g = UUID_str_groups [OF r, unfolded n dv]
  show ?thesis
    unfolding uuid4_shaped_def g using dt
    by (simp add: length_hexpad hexpad_is_hex)
qed







lemma isoformat_dt0: "isoformat dt0 = ''2024-01-14T17:07:00''"
  by code_simp

lemma to_dict_user0:
  "to_dict user0 =
     (Inr [(''id'', PStr ''1809''), (''created_at'', PStr ''2024-01-14T17:07:00''),
           (''updated_at'', PStr ''2024-01-14T17:07:00''), (''email'', PStr ''abdo@gmail.com''),
           (''__class__'', PStr ''User'')], user0)"
  by (simp add: to_dict_def user0_def getattr_def call_isoformat_def isoformat_dt0 dict_copy_def)

lemma call_to_dict_Inr:
  "fst (call_to_dict self) = Inr m \<Longrightarrow>
   ''to_dict'' \<notin> fst ` set (attrs self) \<and> fst (to_dict self) = Inr m"
  by (simp add: call_to_dict_def split: if_splits)

lemma call_to_dict_plain:
  "''to_dict'' \<notin> fst ` set (attrs self) \<Longrightarrow> call_to_dict self = to_dict self"
  by (simp add: call_to_dict_def)

lemma call_to_dict_fails:
  "fst (to_dict self) = Inl e \<Longrightarrow> \<exists>e'. fst (call_to_dict self) = Inl e'"
  by (simp add: call_to_dict_def)

lemma call_to_dict_user0:
  "fst (call_to_dict user0) =
     Inr [(''id'', PStr ''1809''), (''created_at'', PStr ''2024-01-14T17:07:00''),
          (''updated_at'', PStr ''2024-01-14T17:07:00''), (''email'', PStr ''abdo@gmail.com''),
          (''__class__'', PStr ''User'')]"
  by (simp add: call_to_dict_def to_dict_user0) (simp add: user0_def)


section \<open>The constructor and the storage engine\<close>

text \<open>
  C7. A fresh construction (no keyword) hands the new instance to the \<^verbatim>\<open>new\<close> of the
  storage engine, whose state after the call is that of \<^verbatim>\<open>new\<close>; a construction from a
  mapping that is not empty leaves the state of the storage engine as it was, whether it
  returns or raises.
\<close>

theorem init_registers:
  "(\<exists>self. BaseModel_init parse storage_new now urandom cls args [] st
             = (Inr self, storage_new self st))
   \<and> (kwargs \<noteq> [] \<longrightarrow>
        snd (BaseModel_init parse storage_new now urandom cls args kwargs st) = st)"
  by (simp add: BaseModel_init_def assign_def getattr_def Let_def)

theorem init_registers_witness:
  "[(''id'', PStr ''1809'')] \<noteq> []
   \<and> BaseModel_init parse_iso FileStorage_new dt0 0 ''User'' [] [(''id'', PStr ''1809'')] []
       = (Inr \<lparr>class_name = ''User'', attrs = [(''id'', PStr ''1809'')]\<rparr>, [])
   \<and> snd (BaseModel_init parse_iso FileStorage_new dt0 0 ''User'' [] [] [])
       = [(''User.'' @ UUID_str (uuid4 0),
           \<lparr>class_name = ''User'',
            attrs = [(''id'', PStr (UUID_str (uuid4 0))), (''created_at'', PDatetime dt0),
                     (''updated_at'', PDatetime dt0)]\<rparr>)]"
  using init_registers [of parse_iso FileStorage_new dt0 0 "''User''" "[]" "[]"
      "[(''id'', PStr ''1809'')]"]
  by (simp add: BaseModel_init_def assign_def getattr_def Let_def create_def create_body_def
      setattr_def FileStorage_new_def composite_key_def)

section \<open>to\_dict\<close>

text \<open>
  C8. \<^verbatim>\<open>to_dict\<close> leaves the instance as it was, so a second call on the instance returns
  what the first one did; a mapping it returns holds the attributes of the instance, with
  the name of the class under \<^verbatim>\<open>__class__\<close> and the two timestamps in ISO format.
\<close>

theorem to_dict_idempotent:
  "snd (to_dict self) = self
   \<and> fst (to_dict (snd (to_dict self))) = fst (to_dict self)
   \<and> (\<forall>m. fst (to_dict self) = Inr m \<longrightarrow>
         (\<exists>c u. getattr self ''created_at'' = Inr (PDatetime c)
              \<and> getattr self ''updated_at'' = Inr (PDatetime u)
              \<and> map_of m = (map_of (attrs self))
                   (''__class__'' \<mapsto> PStr (class_name self),
                    ''created_at'' \<mapsto> PStr (isoformat c),
                    ''updated_at'' \<mapsto> PStr (isoformat u))))"
  by (auto simp: to_dict_def Let_def dict_copy_def call_isoformat_def map_of_dict_setitem
      split: sum.splits pyval.splits)

theorem to_dict_idempotent_witness:
  "fst (to_dict user0) =
     Inr [(''id'', PStr ''1809''), (''created_at'', PStr ''2024-01-14T17:07:00''),
          (''updated_at'', PStr ''2024-01-14T17:07:00''), (''email'', PStr ''abdo@gmail.com''),
          (''__class__'', PStr ''User'')]
   \<and> snd (to_dict user0) = user0
   \<and> fst (to_dict (snd (to_dict user0))) = fst (to_dict user0)"
  using to_dict_idempotent [of user0] by (simp add: to_dict_user0)

section \<open>Reconstruction from a mapping: the errors\<close>

text \<open>
  C2. A mapping with None for \<^verbatim>\<open>id\<close> and nothing else: the constructor raises nothing
  and returns an instance whose \<^verbatim>\<open>id\<close> is None, where the claim, as the docstring of
  \<^verbatim>\<open>test_with_None_kwargs\<close> does, asks for a TypeError on any field that is None.
\<close>

theorem null_id_accepted:
  "BaseModel_init parse_iso FileStorage_new dt0 0 ''User'' [] [(''id'', PNone)] []
     = (Inr \<lparr>class_name = ''User'', attrs = [(''id'', PNone)]\<rparr>, [])"
  by (simp add: BaseModel_init_def create_def create_body_def setattr_def)

text \<open>
  The path of the timestamps does what the claim says: a mapping whose \<^verbatim>\<open>created_at\<close> or
  \<^verbatim>\<open>updated_at\<close> is None is never constructed from, and the exception is the TypeError of
  \<^verbatim>\<open>fromisoformat\<close> whenever the loop gets through the entries before that one.
\<close>

theorem null_timestamp_rejected:
  "distinct (map fst kwargs) \<and> kwargs = pre @ (k, PNone) # post
      \<and> (k = ''created_at'' \<or> k = ''updated_at'') \<longrightarrow>
      (\<exists>e. fst (BaseModel_init parse storage_new now urandom cls args kwargs st) = Inl e)
      \<and> (\<forall>s. create_loop parse kwargs \<lparr>class_name = cls, attrs = []\<rparr> pre = Inr s \<longrightarrow>
            fst (BaseModel_init parse storage_new now urandom cls args kwargs st)
              = Inl TypeError)"
proof (intro conjI impI)
  assume a: "distinct (map fst kwargs) \<and> kwargs = pre @ (k, PNone) # post
      \<and> (k = ''created_at'' \<or> k = ''updated_at'')"
  then have kw: "kwargs = pre @ (k, PNone) # post" by simp
  have "distinct (map fst (pre @ (k, PNone) # post))"
    using a unfolding kw by blast
  then have "map_of kwargs k = Some PNone"
    unfolding kw by (rule dict_entry_lookup)
  then have "\<And>s. create_body parse kwargs s (k, PNone) = Inl TypeError"
    using a by (simp add: create_body_timestamp fromisoformat_def)
  note r = create_raises_at [of parse pre "(k, PNone)" post TypeError, OF this [unfolded kw]]
  show "\<exists>e. fst (BaseModel_init parse storage_new now urandom cls args kwargs st) = Inl e"
    using r unfolding kw by (auto simp: BaseModel_init_def Let_def)
  show "\<forall>s. create_loop parse kwargs \<lparr>class_name = cls, attrs = []\<rparr> pre = Inr s \<longrightarrow>
            fst (BaseModel_init parse storage_new now urandom cls args kwargs st)
              = Inl TypeError"
    using r unfolding kw by (auto simp: BaseModel_init_def Let_def)
qed

theorem null_timestamp_rejected_witness:
  "distinct (map fst [(''id'', PNone), (''created_at'', PNone), (''updated_at'', PNone)])
   \<and> create_loop parse_iso [(''id'', PNone), (''created_at'', PNone), (''updated_at'', PNone)]
         \<lparr>class_name = ''User'', attrs = []\<rparr> [(''id'', PNone)]
       = Inr \<lparr>class_name = ''User'', attrs = [(''id'', PNone)]\<rparr>
   \<and> fst (BaseModel_init parse_iso FileStorage_new dt0 0 ''User'' []
         [(''id'', PNone), (''created_at'', PNone), (''updated_at'', PNone)] []) = Inl TypeError"
  using null_timestamp_rejected [where kwargs = "[(''id'', PNone), (''created_at'', PNone),
      (''updated_at'', PNone)]" and pre = "[(''id'', PNone)]" and k = "''created_at''"
      and post = "[(''updated_at'', PNone)]" and parse = parse_iso
      and storage_new = FileStorage_new and now = dt0 and urandom = 0 and cls = "''User''"
      and args = "[]" and st = "[]"]
  by (simp add: create_body_def setattr_def)

text \<open>
  C10 (as the code has it). A mapping whose \<^verbatim>\<open>created_at\<close> or \<^verbatim>\<open>updated_at\<close> is not a
  string is never constructed from, so the value is never copied as it is; the exception
  is the TypeError of \<^verbatim>\<open>fromisoformat\<close> whenever the loop gets through the entries before
  that one.
\<close>

theorem nonstring_timestamp_rejected:
  "distinct (map fst kwargs) \<and> kwargs = pre @ (k, v) # post
      \<and> (k = ''created_at'' \<or> k = ''updated_at'') \<and> (\<forall>x. v \<noteq> PStr x) \<longrightarrow>
      (\<exists>e. fst (BaseModel_init parse storage_new now urandom cls args kwargs st) = Inl e)
      \<and> (\<forall>s. create_loop parse kwargs \<lparr>class_name = cls, attrs = []\<rparr> pre = Inr s \<longrightarrow>
            fst (BaseModel_init parse storage_new now urandom cls args kwargs st)
              = Inl TypeError)"
proof (intro conjI impI)
  assume a: "distinct (map fst kwargs) \<and> kwargs = pre @ (k, v) # post
      \<and> (k = ''created_at'' \<or> k = ''updated_at'') \<and> (\<forall>x. v \<noteq> PStr x)"
  then have kw: "kwargs = pre @ (k, v) # post" by simp
  have "distinct (map fst (pre @ (k, v) # post))"
    using a unfolding kw by blast
  then have "map_of kwargs k = Some v"
    unfolding kw by (rule dict_entry_lookup)
  then have "\<And>s. create_body parse kwargs s (k, v) = Inl TypeError"
    using a by (simp add: create_body_timestamp fromisoformat_not_str)
  note r = create_raises_at [of parse pre "(k, v)" post TypeError, OF this [unfolded kw]]
  show "\<exists>e. fst (BaseModel_init parse storage_new now urandom cls args kwargs st) = Inl e"
    using r unfolding kw by (auto simp: BaseModel_init_def Let_def)
  show "\<forall>s. create_loop parse kwargs \<lparr>class_name = cls, attrs = []\<rparr> pre = Inr s \<longrightarrow>
            fst (BaseModel_init parse storage_new now urandom cls args kwargs st)
              = Inl TypeError"
    using r unfolding kw by (auto simp: BaseModel_init_def Let_def)
qed

theorem nonstring_timestamp_rejected_witness:
  "distinct (map fst [(''id'', PStr ''1809''), (''created_at'', PDatetime dt0)])
   \<and> (\<forall>x. PDatetime dt0 \<noteq> PStr x)
   \<and> create_loop parse_iso [(''id'', PStr ''1809''), (''created_at'', PDatetime dt0)]
         \<lparr>class_name = ''User'', attrs = []\<rparr> [(''id'', PStr ''1809'')]
       = Inr \<lparr>class_name = ''User'', attrs = [(''id'', PStr ''1809'')]\<rparr>
   \<and> fst (BaseModel_init parse_iso FileStorage_new dt0 0 ''User'' []
         [(''id'', PStr ''1809''), (''created_at'', PDatetime dt0)] []) = Inl TypeError"
  using nonstring_timestamp_rejected [where kwargs = "[(''id'', PStr ''1809''),
      (''created_at'', PDatetime dt0)]" and pre = "[(''id'', PStr ''1809'')]"
      and k = "''created_at''" and v = "PDatetime dt0"
      and post = "[]" and parse = parse_iso
      and storage_new = FileStorage_new and now = dt0 and urandom = 0 and cls = "''User''"
      and args = "[]" and st = "[]"]
  by (simp add: create_body_def setattr_def)

text \<open>
  The claim C10 as stated fails: with an invalid string in \<^verbatim>\<open>created_at\<close> before it, a
  number in \<^verbatim>\<open>updated_at\<close> is not reached and the exception is a ValueError.
\<close>

theorem nonstring_after_invalid_string:
  "fst (BaseModel_init parse_iso FileStorage_new dt0 0 ''User'' []
         [(''created_at'', PStr ''1809''), (''updated_at'', PInt 2002)] []) = Inl ValueError"
  by (simp add: BaseModel_init_def create_def create_body_def dict_getitem_def
      fromisoformat_def parse_iso_short)

text \<open>
  C4 (as the code has it). A mapping whose \<^verbatim>\<open>created_at\<close> or \<^verbatim>\<open>updated_at\<close> is a string
  that the parser rejects is never constructed from; the exception is a ValueError
  whenever no keyword is named \<^verbatim>\<open>self\<close> and the loop gets through the entries before
  that one. When the construction succeeds on a mapping without the key \<^verbatim>\<open>__dict__\<close>,
  a timestamp given as a string is stored as the datetime the parser read, not as the
  string.
\<close>

theorem invalid_timestamp_rejected:
  "(distinct (map fst kwargs) \<and> kwargs = pre @ (k, PStr x) # post
      \<and> (k = ''created_at'' \<or> k = ''updated_at'') \<and> parse x = None \<longrightarrow>
      (\<exists>e. fst (BaseModel_init parse storage_new now urandom cls args kwargs st) = Inl e)
      \<and> (''self'' \<notin> fst ` set kwargs \<longrightarrow>
          (\<forall>s. create_loop parse kwargs \<lparr>class_name = cls, attrs = []\<rparr> pre = Inr s \<longrightarrow>
            fst (BaseModel_init parse storage_new now urandom cls args kwargs st)
              = Inl ValueError)))
   \<and> (distinct (map fst kwargs') \<and> (k', PStr x') \<in> set kwargs'
        \<and> (k' = ''created_at'' \<or> k' = ''updated_at'')
        \<and> ''__dict__'' \<notin> fst ` set kwargs'
        \<and> fst (BaseModel_init parse storage_new now urandom cls args kwargs' st) = Inr self'
        \<longrightarrow> (\<exists>d. parse x' = Some d \<and> getattr self' k' = Inr (PDatetime d)))"
proof (intro conjI impI)
  assume a: "distinct (map fst kwargs) \<and> kwargs = pre @ (k, PStr x) # post
      \<and> (k = ''created_at'' \<or> k = ''updated_at'') \<and> parse x = None"
  then have kw: "kwargs = pre @ (k, PStr x) # post" by simp
  have "distinct (map fst (pre @ (k, PStr x) # post))"
    using a unfolding kw by blast
  then have "map_of kwargs k = Some (PStr x)"
    unfolding kw by (rule dict_entry_lookup)
  then have "\<And>s. create_body parse kwargs s (k, PStr x) = Inl ValueError"
    using a by (simp add: create_body_timestamp fromisoformat_invalid)
  note r = create_raises_at [of parse pre "(k, PStr x)" post ValueError, OF this [unfolded kw]]
  show "\<exists>e. fst (BaseModel_init parse storage_new now urandom cls args kwargs st) = Inl e"
    using r unfolding kw by (auto simp: BaseModel_init_def Let_def)
  assume "''self'' \<notin> fst ` set kwargs"
  then show "\<forall>s. create_loop parse kwargs \<lparr>class_name = cls, attrs = []\<rparr> pre = Inr s \<longrightarrow>
            fst (BaseModel_init parse storage_new now urandom cls args kwargs st)
              = Inl ValueError"
    using r unfolding kw by (auto simp: BaseModel_init_def Let_def)
next
  assume b: "distinct (map fst kwargs') \<and> (k', PStr x') \<in> set kwargs'
        \<and> (k' = ''created_at'' \<or> k' = ''updated_at'')
        \<and> ''__dict__'' \<notin> fst ` set kwargs'
        \<and> fst (BaseModel_init parse storage_new now urandom cls args kwargs' st) = Inr self'"
  then have ne: "kwargs' \<noteq> []" by auto
  have loop: "create_loop parse kwargs' \<lparr>class_name = cls, attrs = []\<rparr> kwargs' = Inr self'"
    using b ne by (simp add: BaseModel_init_def Let_def create_def split: if_splits)
  have look: "map_of kwargs' k' = Some (PStr x')"
    using b by (simp add: map_of_is_SomeI)
  have k': "k' \<noteq> ''__class__''" using b by auto
  from create_loop_stored [OF loop _ _ _ k', of "PStr x'"] b
  obtain y d where "map_of kwargs' k' = Some (PStr y)" "parse y = Some d"
    "map_of (attrs self') k' = Some (PDatetime d)" by blast
  with look show "\<exists>d. parse x' = Some d \<and> getattr self' k' = Inr (PDatetime d)"
    by (simp add: getattr_def)
qed

theorem invalid_timestamp_rejected_witness:
  "distinct (map fst [(''id'', PStr ''1809''), (''created_at'', PStr ''1809''),
                      (''updated_at'', PStr ''2002'')])
   \<and> parse_iso ''1809'' = None
   \<and> fst (BaseModel_init parse_iso FileStorage_new dt0 0 ''User'' []
         [(''id'', PStr ''1809''), (''created_at'', PStr ''1809''),
          (''updated_at'', PStr ''2002'')] []) = Inl ValueError
   \<and> fst (BaseModel_init parse_iso FileStorage_new dt0 0 ''User'' []
         [(''id'', PStr ''1809''), (''created_at'', PStr ''2024-01-14T17:07:00''),
          (''updated_at'', PStr ''2024-01-14T17:07:00''), (''__class__'', PStr ''User''),
          (''email'', PStr ''abdo@gmail.com'')] []) = Inr user0
   \<and> parse_iso ''2024-01-14T17:07:00'' = Some dt0
   \<and> getattr user0 ''created_at'' = Inr (PDatetime dt0)"
  using invalid_timestamp_rejected [where kwargs = "[(''id'', PStr ''1809''),
      (''created_at'', PStr ''1809''), (''updated_at'', PStr ''2002'')]"
      and pre = "[(''id'', PStr ''1809'')]" and k = "''created_at''" and x = "''1809''"
      and post = "[(''updated_at'', PStr ''2002'')]" and parse = parse_iso
      and storage_new = FileStorage_new and now = dt0 and urandom = 0 and cls = "''User''"
      and args = "[]" and st = "[]"
      and kwargs' = "[(''id'', PStr ''1809''), (''created_at'', PStr ''2024-01-14T17:07:00''),
          (''updated_at'', PStr ''2024-01-14T17:07:00''), (''__class__'', PStr ''User''),
          (''email'', PStr ''abdo@gmail.com'')]"
      and k' = "''created_at''" and x' = "''2024-01-14T17:07:00''" and self' = user0]
  by (simp add: init_mapping0 parse_iso_short parse_iso_dt0 create_body_def setattr_def
      user0_def getattr_def)

text \<open>
  The claim C4 as stated fails: with None in \<^verbatim>\<open>created_at\<close> before it, an invalid string
  in \<^verbatim>\<open>updated_at\<close> is not reached and the exception is a TypeError.
\<close>

theorem invalid_string_after_null:
  "fst (BaseModel_init parse_iso FileStorage_new dt0 0 ''User'' []
         [(''created_at'', PNone), (''updated_at'', PStr ''2002'')] []) = Inl TypeError"
  by (simp add: BaseModel_init_def create_def create_body_def dict_getitem_def
      fromisoformat_def)

section \<open>save and the timestamps\<close>

text \<open>
  C6 (as the code has it). \<^verbatim>\<open>save\<close> stores the reading of the clock in
  \<^verbatim>\<open>updated_at\<close> and leaves the other attributes. So \<^verbatim>\<open>updated_at\<close> after the call
  is not earlier than before it exactly when the reading is not earlier than the value
  before, and later exactly when the reading is later.
\<close>

theorem save_sets_updated_at:
  "getattr (fst (snd (save storage_save now self st))) ''updated_at'' = Inr (PDatetime now)
   \<and> (\<forall>k. k \<noteq> ''updated_at'' \<longrightarrow>
         getattr (fst (snd (save storage_save now self st))) k = getattr self k)
   \<and> (getattr self ''updated_at'' = Inr (PDatetime u) \<longrightarrow>
        (\<exists>u'. getattr (fst (snd (save storage_save now self st))) ''updated_at''
                 = Inr (PDatetime u')
            \<and> (dt_le u u' \<longleftrightarrow> dt_le u now) \<and> (dt_less u u' \<longleftrightarrow> dt_less u now)))"
  by (simp add: save_result getattr_assign)

theorem save_sets_updated_at_witness:
  "getattr user0 ''updated_at'' = Inr (PDatetime dt0)
   \<and> getattr (fst (snd (save storage_save_ok dt1 user0 []))) ''updated_at''
       = Inr (PDatetime dt1)
   \<and> getattr (fst (snd (save storage_save_ok dt1 user0 []))) ''email''
       = Inr (PStr ''abdo@gmail.com'')
   \<and> dt_less dt0 dt1"
  using save_sets_updated_at [where storage_save = storage_save_ok and now = dt1
      and self = user0 and st = "[]" and u = dt0]
  by (simp add: dt0_less_dt1 user0_def getattr_def)

text \<open>
  The claim C6 as stated fails: an instance built from a mapping whose \<^verbatim>\<open>updated_at\<close> is
  in the year 2999 has an earlier \<^verbatim>\<open>updated_at\<close> after \<^verbatim>\<open>save\<close>.
\<close>

theorem save_moves_updated_at_back:
  "fst (BaseModel_init parse_iso FileStorage_new dt0 0 ''User'' []
         [(''id'', PStr ''1809''), (''created_at'', PStr ''2024-01-14T17:07:00''),
          (''updated_at'', PStr ''2999-01-01T00:00:00'')] [])
     = Inr \<lparr>class_name = ''User'',
            attrs = [(''id'', PStr ''1809''), (''created_at'', PDatetime dt0),
                     (''updated_at'', PDatetime dt_late)]\<rparr>
   \<and> getattr (fst (snd (save storage_save_ok dt0
         \<lparr>class_name = ''User'',
          attrs = [(''id'', PStr ''1809''), (''created_at'', PDatetime dt0),
                   (''updated_at'', PDatetime dt_late)]\<rparr> []))) ''updated_at''
       = Inr (PDatetime dt0)
   \<and> \<not> dt_le dt_late dt0"
  by (simp add: BaseModel_init_def create_def create_body_def dict_getitem_def
      fromisoformat_def parse_iso_dt0 parse_iso_dt_late setattr_def save_result
      getattr_assign dt0_less_dt_late)

text \<open>
  C3 (as the code has it). Right after a fresh construction \<^verbatim>\<open>created_at\<close> and
  \<^verbatim>\<open>updated_at\<close> are the same reading of the clock. After \<^verbatim>\<open>save\<close> the order
  \<^verbatim>\<open>created_at <= updated_at\<close> holds exactly when \<^verbatim>\<open>created_at\<close> is not later than the
  reading that \<^verbatim>\<open>save\<close> stores. A construction from a mapping (without the key
  \<^verbatim>\<open>__dict__\<close>) checks nothing: the instance holds the two timestamps as parsed, and the
  order holds for it exactly when it holds for them.
\<close>

theorem timestamps_order:
  "(\<exists>self. fst (BaseModel_init parse storage_new now urandom cls args [] st) = Inr self
       \<and> getattr self ''created_at'' = Inr (PDatetime now)
       \<and> getattr self ''updated_at'' = Inr (PDatetime now)
       \<and> created_le_updated self)
   \<and> (getattr self ''created_at'' = Inr (PDatetime c) \<longrightarrow>
        (created_le_updated (fst (snd (save storage_save now self st'))) \<longleftrightarrow> dt_le c now))
   \<and> (distinct (map fst kwargs) \<and> ''__dict__'' \<notin> fst ` set kwargs
        \<and> (''created_at'', PStr x) \<in> set kwargs \<and> (''updated_at'', PStr y) \<in> set kwargs
        \<and> fst (BaseModel_init parse storage_new now urandom cls args kwargs st) = Inr self'
        \<longrightarrow> (\<exists>c' u'. parse x = Some c' \<and> parse y = Some u'
               \<and> getattr self' ''created_at'' = Inr (PDatetime c')
               \<and> getattr self' ''updated_at'' = Inr (PDatetime u')
               \<and> (created_le_updated self' \<longleftrightarrow> dt_le c' u')))"
proof (intro conjI impI)
  show "\<exists>self. fst (BaseModel_init parse storage_new now urandom cls args [] st) = Inr self
       \<and> getattr self ''created_at'' = Inr (PDatetime now)
       \<and> getattr self ''updated_at'' = Inr (PDatetime now)
       \<and> created_le_updated self"
    by (simp add: init_fresh getattr_def created_le_updated_def dt_le_refl)
next
  assume "getattr self ''created_at'' = Inr (PDatetime c)"
  then show "created_le_updated (fst (snd (save storage_save now self st'))) \<longleftrightarrow> dt_le c now"
    by (simp add: save_result created_le_updated_def getattr_assign)
next
  assume a: "distinct (map fst kwargs) \<and> ''__dict__'' \<notin> fst ` set kwargs
        \<and> (''created_at'', PStr x) \<in> set kwargs \<and> (''updated_at'', PStr y) \<in> set kwargs
        \<and> fst (BaseModel_init parse storage_new now urandom cls args kwargs st) = Inr self'"
  then have ne: "kwargs \<noteq> []" by auto
  have ini: "fst (BaseModel_init parse storage_new now urandom cls args kwargs st) = Inr self'"
    using a by blast
  have loop: "create_loop parse kwargs \<lparr>class_name = cls, attrs = []\<rparr> kwargs = Inr self'"
    using init_kwargs [OF ne ini] by blast
  have dist: "distinct (map fst kwargs)" and nd: "''__dict__'' \<notin> fst ` set kwargs"
    and cm: "(''created_at'', PStr x) \<in> set kwargs"
    and um: "(''updated_at'', PStr y) \<in> set kwargs"
    using a by blast+
  have lc: "map_of kwargs ''created_at'' = Some (PStr x)"
    using dist cm by (rule map_of_is_SomeI)
  have lu: "map_of kwargs ''updated_at'' = Some (PStr y)"
    using dist um by (rule map_of_is_SomeI)
  from create_loop_stored [OF loop nd dist cm] lc
  obtain c' where c': "parse x = Some c'"
    "map_of (attrs self') ''created_at'' = Some (PDatetime c')" by auto
  from create_loop_stored [OF loop nd dist um] lu
  obtain u' where u': "parse y = Some u'"
    "map_of (attrs self') ''updated_at'' = Some (PDatetime u')" by auto
  show "\<exists>c' u'. parse x = Some c' \<and> parse y = Some u'
               \<and> getattr self' ''created_at'' = Inr (PDatetime c')
               \<and> getattr self' ''updated_at'' = Inr (PDatetime u')
               \<and> (created_le_updated self' \<longleftrightarrow> dt_le c' u')"
    using c' u' by (simp add: getattr_def created_le_updated_def)
qed

theorem timestamps_order_witness:
  "getattr user0 ''created_at'' = Inr (PDatetime dt0)
   \<and> created_le_updated (fst (snd (save storage_save_ok dt1 user0 [])))
   \<and> dt_le dt0 dt1
   \<and> distinct (map fst [(''id'', PStr ''1809''), (''created_at'', PStr ''2024-01-14T17:07:00''),
      (''updated_at'', PStr ''2024-01-14T17:07:00''), (''__class__'', PStr ''User''),
      (''email'', PStr ''abdo@gmail.com'')])
   \<and> fst (BaseModel_init parse_iso FileStorage_new dt1 0 ''User'' []
     [(''id'', PStr ''1809''), (''created_at'', PStr ''2024-01-14T17:07:00''),
      (''updated_at'', PStr ''2024-01-14T17:07:00''), (''__class__'', PStr ''User''),
      (''email'', PStr ''abdo@gmail.com'')] []) = Inr user0
   \<and> created_le_updated user0"
  using timestamps_order [where parse = parse_iso and storage_new = FileStorage_new
      and now = dt1 and urandom = 0 and cls = "''User''" and args = "[]" and st = "[]"
      and self = user0 and c = dt0 and storage_save = storage_save_ok and st' = "[]"
      and kwargs = "[(''id'', PStr ''1809''), (''created_at'', PStr ''2024-01-14T17:07:00''),
      (''updated_at'', PStr ''2024-01-14T17:07:00''), (''__class__'', PStr ''User''),
      (''email'', PStr ''abdo@gmail.com'')]"
      and x = "''2024-01-14T17:07:00''" and y = "''2024-01-14T17:07:00''" and self' = user0]
  by (simp add: BaseModel_init_def create_def create_body_def dict_getitem_def
      fromisoformat_def parse_iso_dt0 setattr_def user0_def getattr_def dt0_less_dt1
      dt_le_refl)

text \<open>
  The claim C3 as stated fails: a mapping whose \<^verbatim>\<open>created_at\<close> is later than its
  \<^verbatim>\<open>updated_at\<close> is constructed from as it is.
\<close>

theorem reconstructed_created_after_updated:
  "fst (BaseModel_init parse_iso FileStorage_new dt0 0 ''User'' []
         [(''id'', PStr ''1809''), (''created_at'', PStr ''2024-01-15T00:00:00''),
          (''updated_at'', PStr ''2024-01-14T17:07:00'')] [])
     = Inr \<lparr>class_name = ''User'',
            attrs = [(''id'', PStr ''1809''), (''created_at'', PDatetime dt1),
                     (''updated_at'', PDatetime dt0)]\<rparr>
   \<and> \<not> created_le_updated \<lparr>class_name = ''User'',
            attrs = [(''id'', PStr ''1809''), (''created_at'', PDatetime dt1),
                     (''updated_at'', PDatetime dt0)]\<rparr>"
  by (simp add: BaseModel_init_def create_def create_body_def dict_getitem_def
      fromisoformat_def parse_iso_dt0 parse_iso_dt1 setattr_def created_le_updated_def
      getattr_def dt0_less_dt1)

section \<open>Mappings that leave a field out\<close>

text \<open>
  C9 (as the code has it). A mapping that is not empty, has distinct keys and plain entries
  only is constructed from, whatever it leaves out. When a construction from a mapping
  without the key \<^verbatim>\<open>__dict__\<close> succeeds, a name that the mapping leaves out is no attribute
  of the instance. If the name is \<^verbatim>\<open>created_at\<close> or \<^verbatim>\<open>updated_at\<close>, the method
  \<^verbatim>\<open>to_dict\<close> raises AttributeError where it reads the attribute, and the call
  \<^verbatim>\<open>obj.to_dict()\<close> fails (with that AttributeError, or with a TypeError when an
  attribute named \<^verbatim>\<open>to_dict\<close> hides the method); if the name is \<^verbatim>\<open>id\<close>, \<^verbatim>\<open>__str__\<close> raises
  AttributeError. A call \<^verbatim>\<open>obj.to_dict()\<close> returns a mapping only on an instance whose two
  timestamps are attributes that hold datetimes.
\<close>

theorem missing_fields:
  "(kwargs \<noteq> [] \<and> distinct (map fst kwargs) \<and> (\<forall>item \<in> set kwargs. plain_entry parse item)
      \<longrightarrow> (\<exists>self. fst (BaseModel_init parse storage_new now urandom cls args kwargs st)
                    = Inr self))
   \<and> (kwargs \<noteq> [] \<and> ''__dict__'' \<notin> fst ` set kwargs \<and> k \<notin> fst ` set kwargs
        \<and> fst (BaseModel_init parse storage_new now urandom cls args kwargs st) = Inr self
      \<longrightarrow> getattr self k = Inl AttributeError
          \<and> (k = ''created_at'' \<or> k = ''updated_at'' \<longrightarrow>
                fst (to_dict self) = Inl AttributeError
                \<and> (\<exists>e. fst (call_to_dict self) = Inl e)
                \<and> (''to_dict'' \<notin> fst ` set (attrs self) \<longrightarrow>
                     fst (call_to_dict self) = Inl AttributeError)
                \<and> (''to_dict'' \<in> fst ` set (attrs self) \<longrightarrow>
                     fst (call_to_dict self) = Inl TypeError))
          \<and> (k = ''id'' \<longrightarrow> BaseModel_str py_str py_repr self = Inl AttributeError))
   \<and> ((\<exists>m. fst (call_to_dict self') = Inr m) \<longrightarrow>
        (\<exists>c u. getattr self' ''created_at'' = Inr (PDatetime c)
             \<and> getattr self' ''updated_at'' = Inr (PDatetime u)))"
proof (intro conjI impI)
  assume a: "kwargs \<noteq> [] \<and> distinct (map fst kwargs)
      \<and> (\<forall>item \<in> set kwargs. plain_entry parse item)"
  then have "''self'' \<notin> fst ` set kwargs"
    by (auto simp: plain_entry_def)
  moreover obtain s' where "create parse \<lparr>class_name = cls, attrs = []\<rparr> kwargs = Inr s'"
    using create_plain [of kwargs parse] a by blast
  ultimately show "\<exists>self. fst (BaseModel_init parse storage_new now urandom cls args kwargs st)
                    = Inr self"
    using a by (simp add: BaseModel_init_def Let_def)
next
  assume b: "kwargs \<noteq> [] \<and> ''__dict__'' \<notin> fst ` set kwargs \<and> k \<notin> fst ` set kwargs
        \<and> fst (BaseModel_init parse storage_new now urandom cls args kwargs st) = Inr self"
  then have ne: "kwargs \<noteq> []"
    and ini: "fst (BaseModel_init parse storage_new now urandom cls args kwargs st) = Inr self"
    and nd: "''__dict__'' \<notin> fst ` set kwargs" and k: "k \<notin> fst ` set kwargs"
    by blast+
  have loop: "create_loop parse kwargs \<lparr>class_name = cls, attrs = []\<rparr> kwargs = Inr self"
    using init_kwargs [OF ne ini] by blast
  have "map_of (attrs self) k = map_of (attrs \<lparr>class_name = cls, attrs = []\<rparr>) k"
    using create_loop_frame [OF loop nd] k by blast
  then show g: "getattr self k = Inl AttributeError"
    by (simp add: getattr_def)
  {
    assume "k = ''created_at'' \<or> k = ''updated_at''"
    then have t: "fst (to_dict self) = Inl AttributeError"
      using g to_dict_missing by blast
    show "fst (to_dict self) = Inl AttributeError" by (rule t)
    show "\<exists>e. fst (call_to_dict self) = Inl e"
      using t by (rule call_to_dict_fails)
    show "fst (call_to_dict self) = Inl AttributeError"
      if "''to_dict'' \<notin> fst ` set (attrs self)"
      using t that by (simp add: call_to_dict_plain)
    show "fst (call_to_dict self) = Inl TypeError"
      if "''to_dict'' \<in> fst ` set (attrs self)"
      using that by (simp add: call_to_dict_def)
  }
  show "k = ''id'' \<Longrightarrow> BaseModel_str py_str py_repr self = Inl AttributeError"
    using g by (simp add: BaseModel_str_def)
next
  assume "\<exists>m. fst (call_to_dict self') = Inr m"
  then have "\<exists>m. fst (to_dict self') = Inr m"
    using call_to_dict_Inr by blast
  then show "\<exists>c u. getattr self' ''created_at'' = Inr (PDatetime c)
             \<and> getattr self' ''updated_at'' = Inr (PDatetime u)"
    by (simp add: to_dict_total_iff)
qed

theorem missing_fields_witness:
  "[(''year'', PStr ''2024'')] \<noteq> [] \<and> distinct (map fst [(''year'', PStr ''2024'')])
   \<and> plain_entry parse_iso (''year'', PStr ''2024'')
   \<and> fst (BaseModel_init parse_iso FileStorage_new dt0 0 ''User'' []
            [(''year'', PStr ''2024'')] [])
       = Inr \<lparr>class_name = ''User'', attrs = [(''year'', PStr ''2024'')]\<rparr>
   \<and> fst (call_to_dict \<lparr>class_name = ''User'', attrs = [(''year'', PStr ''2024'')]\<rparr>)
       = Inl AttributeError
   \<and> BaseModel_str (\<lambda>v. []) (\<lambda>v. []) \<lparr>class_name = ''User'', attrs = [(''year'', PStr ''2024'')]\<rparr>
       = Inl AttributeError
   \<and> fst (call_to_dict user0) =
     Inr [(''id'', PStr ''1809''), (''created_at'', PStr ''2024-01-14T17:07:00''),
          (''updated_at'', PStr ''2024-01-14T17:07:00''), (''email'', PStr ''abdo@gmail.com''),
          (''__class__'', PStr ''User'')]
   \<and> getattr user0 ''created_at'' = Inr (PDatetime dt0)
   \<and> getattr user0 ''updated_at'' = Inr (PDatetime dt0)"
  using missing_fields [where kwargs = "[(''year'', PStr ''2024'')]" and parse = parse_iso
      and storage_new = FileStorage_new and now = dt0 and urandom = 0 and cls = "''User''"
      and args = "[]" and st = "[]" and k = "''created_at''"
      and self = "\<lparr>class_name = ''User'', attrs = [(''year'', PStr ''2024'')]\<rparr>"
      and self' = user0 and py_str = "\<lambda>v. []" and py_repr = "\<lambda>v. []"]
    missing_fields [where kwargs = "[(''year'', PStr ''2024'')]" and parse = parse_iso
      and storage_new = FileStorage_new and now = dt0 and urandom = 0 and cls = "''User''"
      and args = "[]" and st = "[]" and k = "''id''"
      and self = "\<lparr>class_name = ''User'', attrs = [(''year'', PStr ''2024'')]\<rparr>"
      and self' = user0 and py_str = "\<lambda>v. []" and py_repr = "\<lambda>v. []"]
  by (simp add: plain_entry_def init_single_plain call_to_dict_user0)
    (simp add: user0_def getattr_def)

text \<open>
  The claim C9 as stated fails: a mapping whose one key is \<^verbatim>\<open>__dict__\<close> leaves both
  timestamps out and is constructed from, but its value becomes the dictionary of the
  instance, so both timestamps are attributes and \<^verbatim>\<open>obj.to_dict()\<close> returns a mapping.
\<close>

theorem mapping_with_dict_key:
  "fst (BaseModel_init parse_iso FileStorage_new dt0 0 ''User'' []
         [(''__dict__'', PDict [(''created_at'', PDatetime dt0),
                               (''updated_at'', PDatetime dt0)])] [])
     = Inr \<lparr>class_name = ''User'',
            attrs = [(''created_at'', PDatetime dt0), (''updated_at'', PDatetime dt0)]\<rparr>
   \<and> fst (call_to_dict \<lparr>class_name = ''User'',
            attrs = [(''created_at'', PDatetime dt0), (''updated_at'', PDatetime dt0)]\<rparr>)
     = Inr [(''created_at'', PStr ''2024-01-14T17:07:00''),
            (''updated_at'', PStr ''2024-01-14T17:07:00''), (''__class__'', PStr ''User'')]"
  by (simp add: BaseModel_init_def create_def create_body_def setattr_def call_to_dict_def
      to_dict_def getattr_def call_isoformat_def isoformat_dt0 dict_copy_def)

section \<open>Fresh construction\<close>

text \<open>
  C5. A construction with no keyword returns an instance whose \<^verbatim>\<open>created_at\<close> and
  \<^verbatim>\<open>updated_at\<close> are the same reading of the clock and whose \<^verbatim>\<open>id\<close> is a string of the
  shape of a version 4 UUID, whatever the sixteen random bytes are.
\<close>

theorem fresh_entity:
  "\<exists>self i. fst (BaseModel_init parse storage_new now urandom cls args [] st) = Inr self
      \<and> getattr self ''created_at'' = Inr (PDatetime now)
      \<and> getattr self ''updated_at'' = Inr (PDatetime now)
      \<and> getattr self ''id'' = Inr (PStr i) \<and> uuid4_shaped i"
  by (simp add: init_fresh getattr_def uuid4_str_shaped)

section \<open>The round trip\<close>




end
